theory Spec2Isabelle
  imports Main "HOL-Library.Sublist" "HOL-Library.Product_Lexorder"
begin

section \<open>The favicon generator (generate\_favicons.py)\<close>

text \<open>
  The script is a straight line of effects on the file system and the console, with one
  loop over a fixed list of sizes. The model threads a \<open>world\<close> (directories, files, and
  the trace of successful writes and prints) through the statements in program order; an
  unhandled exception ends the run and keeps the world reached so far.

  The imaging library (Pillow) is not part of the repository. Its interface is modelled
  after its documentation: the geometry and the bookkeeping of each call are written
  out, the pixel arithmetic (decoding, mode conversion, resampling) is a parameter.
\<close>

subsection \<open>Images and files\<close>

type_synonym path = string

record image =
  im_size :: "nat \<times> nat"
  mode :: string
  data :: "nat list"

datatype resampling = NEAREST | BOX | BILINEAR | HAMMING | BICUBIC | LANCZOS

datatype format = PNG | ICO

text \<open>
  What a file holds: a PNG with its raster, an icon container with its embedded rasters
  in directory order, or bytes that are neither.
\<close>

datatype content = PngFile image | IcoFile "image list" | Blob "nat list"

fun rasters :: "content \<Rightarrow> image list" where
  "rasters (PngFile im) = [im]"
| "rasters (IcoFile frames) = frames"
| "rasters (Blob bs) = []"

text \<open>The library's pixel-level functions, left open.\<close>

record pil =
  decode :: "content \<Rightarrow> image option"
  convert_data :: "string \<Rightarrow> image \<Rightarrow> nat list"
  resample :: "resampling \<Rightarrow> image \<Rightarrow> nat \<times> nat \<Rightarrow> nat list"
  scaled_frame :: "image list \<Rightarrow> nat \<times> nat \<Rightarrow> image"

text \<open>
  \<^verbatim>\<open>Image.convert(mode)\<close> keeps the size and sets the mode;
  \<^verbatim>\<open>Image.resize(size, resample)\<close> returns a new image of exactly the requested size,
  whatever the aspect ratio of the original.
\<close>

definition convert :: "pil \<Rightarrow> image \<Rightarrow> string \<Rightarrow> image" where
  "convert L im m = \<lparr>im_size = im_size im, mode = m, data = convert_data L m im\<rparr>"

definition resize :: "pil \<Rightarrow> image \<Rightarrow> nat \<times> nat \<Rightarrow> resampling \<Rightarrow> image" where
  "resize L im sz flt = \<lparr>im_size = sz, mode = mode im, data = resample L flt im sz\<rparr>"

subsection \<open>The world, failures and outcomes\<close>

datatype event = Wrote path content | Printed string

record world =
  dirs :: "path set"
  files :: "path \<rightharpoonup> content"
  events :: "event list"

text \<open>
  What the environment refuses: creating a directory, or completing the write of a
  file. A failed write leaves at the path whatever the fault says (nothing, the old
  file, a truncated one).
\<close>

record faults =
  mkdir_denied :: "path \<Rightarrow> bool"
  save_fault :: "path \<rightharpoonup> content option"

datatype error = DirectoryError | DecodeError | WriteError | ValueError

datatype 'a outcome = Done 'a world | Raised error world

fun world_of :: "'a outcome \<Rightarrow> world" where
  "world_of (Done x w) = w"
| "world_of (Raised e w) = w"

fun written :: "event list \<Rightarrow> (path \<times> content) list" where
  "written [] = []"
| "written (Wrote p c # es) = (p, c) # written es"
| "written (Printed s # es) = written es"

fun printed :: "event list \<Rightarrow> string list" where
  "printed [] = []"
| "printed (Wrote p c # es) = printed es"
| "printed (Printed s # es) = s # printed es"

subsection \<open>Library and system calls\<close>

text \<open>\<^verbatim>\<open>str(n)\<close> of a non-negative integer: its decimal digits.\<close>

definition digit :: "nat \<Rightarrow> char" where
  "digit d = ''0123456789'' ! d"

function str :: "nat \<Rightarrow> string" where
  "str n = (if n < 10 then [digit n] else str (n div 10) @ [digit (n mod 10)])"
  by pat_completeness auto
termination
  by (relation "measure id") auto

declare str.simps [simp del]

text \<open>\<^verbatim>\<open>os.path.join\<close> of two components, POSIX.\<close>

definition path_join :: "path \<Rightarrow> path \<Rightarrow> path" where
  "path_join a b =
     (if b \<noteq> [] \<and> hd b = CHR ''/'' then b
      else if a = [] \<or> last a = CHR ''/'' then a @ b
      else a @ ''/'' @ b)"

text \<open>
  \<^verbatim>\<open>os.makedirs(name, exist_ok=...)\<close> for a single path component: nothing to do when
  the directory is there and \<open>exist_ok\<close> holds; an error when the name is taken by a file
  or the directory cannot be made.
\<close>

definition can_makedirs :: "faults \<Rightarrow> world \<Rightarrow> path \<Rightarrow> bool" where
  "can_makedirs F w name =
     (if name \<in> dirs w then True
      else if name \<in> dom (files w) then False
      else \<not> mkdir_denied F name)"

definition makedirs :: "faults \<Rightarrow> path \<Rightarrow> bool \<Rightarrow> world \<Rightarrow> unit outcome" where
  "makedirs F name exist_ok w =
     (if name \<in> dirs w then (if exist_ok then Done () w else Raised DirectoryError w)
      else if name \<in> dom (files w) then Raised DirectoryError w
      else if mkdir_denied F name then Raised DirectoryError w
      else Done () (w\<lparr>dirs := insert name (dirs w)\<rparr>))"

text \<open>\<^verbatim>\<open>print(s)\<close>.\<close>

definition print :: "string \<Rightarrow> world \<Rightarrow> world" where
  "print s w = w\<lparr>events := events w @ [Printed s]\<rparr>"

text \<open>Opening a path for writing and writing the whole content.\<close>

definition can_save :: "faults \<Rightarrow> world \<Rightarrow> path \<Rightarrow> bool" where
  "can_save F w p = (p \<notin> dirs w \<and> save_fault F p = None)"

definition write_file :: "faults \<Rightarrow> path \<Rightarrow> content \<Rightarrow> world \<Rightarrow> unit outcome" where
  "write_file F p c w =
     (if p \<in> dirs w then Raised WriteError w
      else case save_fault F p of
             Some residue \<Rightarrow> Raised WriteError (w\<lparr>files := (files w)(p := residue)\<rparr>)
           | None \<Rightarrow>
               Done () (w\<lparr>files := (files w)(p \<mapsto> c), events := events w @ [Wrote p c]\<rparr>))"

text \<open>
  The ICO writer. Of the requested sizes, sorted and without duplicates, it keeps those
  that exceed neither the image being saved nor 256 ("any sizes bigger than the original
  size or 256 will be ignored"); for each kept size it embeds the first of the saved
  image and the appended images that has exactly that size, or else a scaled copy.
\<close>

definition default_ico_sizes :: "(nat \<times> nat) list" where
  "default_ico_sizes = [(16, 16), (24, 24), (32, 32), (48, 48), (64, 64), (128, 128), (256, 256)]"

definition ico_frames :: "pil \<Rightarrow> image \<Rightarrow> (nat \<times> nat) list \<Rightarrow> image list \<Rightarrow> image list" where
  "ico_frames L im szs append_images =
     (let provided_ims = im # append_images;
          width = fst (im_size im);
          height = snd (im_size im)
      in concat (map (\<lambda>sz.
           if fst sz > width \<or> snd sz > height \<or> fst sz > 256 \<or> snd sz > 256 then []
           else (case find (\<lambda>provided_im. im_size provided_im = sz) provided_ims of
                   Some provided_im \<Rightarrow> [provided_im]
                 | None \<Rightarrow> [scaled_frame L provided_ims sz]))
         (sorted_list_of_set (set szs))))"

text \<open>
  \<^verbatim>\<open>Image.save(fp, format=None, **params)\<close>: without a format the file name's extension
  decides, and an unknown extension is a \<^verbatim>\<open>ValueError\<close>.
\<close>

record save_kwargs =
  kw_format :: "format option"
  kw_sizes :: "(nat \<times> nat) list option"
  kw_append_images :: "image list"

definition no_kwargs :: save_kwargs where
  "no_kwargs = \<lparr>kw_format = None, kw_sizes = None, kw_append_images = []\<rparr>"

definition ext_format :: "path \<Rightarrow> format option" where
  "ext_format fp =
     (if suffix ''.png'' fp then Some PNG
      else if suffix ''.ico'' fp then Some ICO
      else None)"

definition save :: "pil \<Rightarrow> faults \<Rightarrow> image \<Rightarrow> path \<Rightarrow> save_kwargs \<Rightarrow> world \<Rightarrow> unit outcome" where
  "save L F im fp kw w =
     (case (case kw_format kw of Some f \<Rightarrow> Some f | None \<Rightarrow> ext_format fp) of
        None \<Rightarrow> Raised ValueError w
      | Some PNG \<Rightarrow> write_file F fp (PngFile im) w
      | Some ICO \<Rightarrow>
          write_file F fp
            (IcoFile (ico_frames L im
               (case kw_sizes kw of Some szs \<Rightarrow> szs | None \<Rightarrow> default_ico_sizes)
               (kw_append_images kw))) w)"

subsection \<open>The script\<close>

definition SOURCE :: path where
  "SOURCE = ''icon.png''"

definition OUTPUT_DIR :: path where
  "OUTPUT_DIR = ''favicons''"

text \<open>\<^verbatim>\<open>Image.open(SOURCE).convert("RGBA")\<close>: a missing or undecodable file raises.\<close>

definition load_source :: "pil \<Rightarrow> world \<Rightarrow> error + image" where
  "load_source L w =
     (case files w SOURCE of
        None \<Rightarrow> Inl DecodeError
      | Some c \<Rightarrow>
          (case decode L c of
             None \<Rightarrow> Inl DecodeError
           | Some im \<Rightarrow> Inr (convert L im ''RGBA'')))"

definition sizes :: "nat list" where
  "sizes = [16, 32, 48, 64, 128, 180, 192, 512]"

definition ico_sizes :: "(nat \<times> nat) list" where
  "ico_sizes = [(16, 16), (32, 32), (48, 48), (64, 64)]"

text \<open>The \<^verbatim>\<open>for size in sizes\<close> loop: resize, save, print.\<close>

fun square_loop :: "pil \<Rightarrow> faults \<Rightarrow> image \<Rightarrow> nat list \<Rightarrow> world \<Rightarrow> unit outcome" where
  "square_loop L F img [] w = Done () w"
| "square_loop L F img (sz # rest) w =
     (let resized = resize L img (sz, sz) LANCZOS in
      case save L F resized
             (path_join OUTPUT_DIR (''favicon-'' @ str sz @ ''x'' @ str sz @ ''.png''))
             no_kwargs w of
        Raised e w' \<Rightarrow> Raised e w'
      | Done u w' \<Rightarrow>
          square_loop L F img rest
            (print (''Created favicon-'' @ str sz @ ''x'' @ str sz @ ''.png'') w'))"

definition generate_favicons :: "pil \<Rightarrow> faults \<Rightarrow> world \<Rightarrow> unit outcome" where
  "generate_favicons L F w0 =
     (case makedirs F OUTPUT_DIR True w0 of
        Raised e w \<Rightarrow> Raised e w
      | Done u w1 \<Rightarrow>
     (case load_source L w1 of
        Inl e \<Rightarrow> Raised e w1
      | Inr img \<Rightarrow>
     (case square_loop L F img sizes w1 of
        Raised e w \<Rightarrow> Raised e w
      | Done u w2 \<Rightarrow>
     (let ico_images = map (\<lambda>s. resize L img s LANCZOS) ico_sizes in
      case save L F (ico_images ! 0) (path_join OUTPUT_DIR ''favicon.ico'')
             \<lparr>kw_format = Some ICO, kw_sizes = Some ico_sizes,
              kw_append_images = drop 1 ico_images\<rparr> w2 of
        Raised e w \<Rightarrow> Raised e w
      | Done u w3 \<Rightarrow>
     (let w4 = print ''Created favicon.ico'' w3 in
      case save L F (resize L img (180, 180) LANCZOS)
             (path_join OUTPUT_DIR ''apple-touch-icon.png'') no_kwargs w4 of
        Raised e w \<Rightarrow> Raised e w
      | Done u w5 \<Rightarrow>
          Done ()
            (print (CHR 0x0A # ''All favicons saved to '' @ [CHR 0x27] @ OUTPUT_DIR @ ''/'' @ [CHR 0x27])
               (print ''Created apple-touch-icon.png'' w5)))))))"

subsection \<open>What a run leaves behind\<close>

text \<open>
  The files the script saves, in program order, each with what it holds; the paths
  alone; and the progress line printed after each save. That the script does exactly
  this is the lemma \<open>generate_favicons_steps\<close> below. The icon container holds one
  raster: the image being saved is the 16 by 16 one, and the writer drops every
  requested size larger than it.
\<close>

definition artifacts :: "pil \<Rightarrow> image \<Rightarrow> (path \<times> content) list" where
  "artifacts L img =
     [(''favicons/favicon-16x16.png'', PngFile (resize L img (16, 16) LANCZOS)),
      (''favicons/favicon-32x32.png'', PngFile (resize L img (32, 32) LANCZOS)),
      (''favicons/favicon-48x48.png'', PngFile (resize L img (48, 48) LANCZOS)),
      (''favicons/favicon-64x64.png'', PngFile (resize L img (64, 64) LANCZOS)),
      (''favicons/favicon-128x128.png'', PngFile (resize L img (128, 128) LANCZOS)),
      (''favicons/favicon-180x180.png'', PngFile (resize L img (180, 180) LANCZOS)),
      (''favicons/favicon-192x192.png'', PngFile (resize L img (192, 192) LANCZOS)),
      (''favicons/favicon-512x512.png'', PngFile (resize L img (512, 512) LANCZOS)),
      (''favicons/favicon.ico'', IcoFile [resize L img (16, 16) LANCZOS]),
      (''favicons/apple-touch-icon.png'', PngFile (resize L img (180, 180) LANCZOS))]"

definition output_paths :: "path list" where
  "output_paths =
     [''favicons/favicon-16x16.png'',
      ''favicons/favicon-32x32.png'',
      ''favicons/favicon-48x48.png'',
      ''favicons/favicon-64x64.png'',
      ''favicons/favicon-128x128.png'',
      ''favicons/favicon-180x180.png'',
      ''favicons/favicon-192x192.png'',
      ''favicons/favicon-512x512.png'',
      ''favicons/favicon.ico'',
      ''favicons/apple-touch-icon.png'']"

definition progress :: "string list" where
  "progress =
     [''Created favicon-16x16.png'',
      ''Created favicon-32x32.png'',
      ''Created favicon-48x48.png'',
      ''Created favicon-64x64.png'',
      ''Created favicon-128x128.png'',
      ''Created favicon-180x180.png'',
      ''Created favicon-192x192.png'',
      ''Created favicon-512x512.png'',
      ''Created favicon.ico'',
      ''Created apple-touch-icon.png'']"

definition summary :: string where
  "summary = CHR 0x0A # ''All favicons saved to '' @ [CHR 0x27] @ ''favicons/'' @ [CHR 0x27]"

text \<open>Saving and announcing a list of files in order, stopping at the first failure.\<close>

fun write_all :: "faults \<Rightarrow> ((path \<times> content) \<times> string) list \<Rightarrow> world \<Rightarrow> unit outcome" where
  "write_all F [] w = Done () w"
| "write_all F (((p, c), line) # rest) w =
     (case write_file F p c w of
        Raised e w' \<Rightarrow> Raised e w'
      | Done u w' \<Rightarrow> write_all F rest (print line w'))"

text \<open>The world after all of a list of saves succeeded, and after one failed.\<close>

fun after :: "((path \<times> content) \<times> string) list \<Rightarrow> world \<Rightarrow> world" where
  "after [] w = w"
| "after (((p, c), line) # rest) w =
     after rest
       (w\<lparr>files := (files w)(p \<mapsto> c), events := events w @ [Wrote p c, Printed line]\<rparr>)"

definition crash :: "faults \<Rightarrow> path \<Rightarrow> world \<Rightarrow> world" where
  "crash F p w =
     (if p \<in> dirs w then w
      else case save_fault F p of
             None \<Rightarrow> w
           | Some residue \<Rightarrow> w\<lparr>files := (files w)(p := residue)\<rparr>)"

text \<open>The number of saves that succeed before the first one that fails.\<close>

definition saves_done :: "faults \<Rightarrow> world \<Rightarrow> nat" where
  "saves_done F w = length (takeWhile (can_save F w) output_paths)"

text \<open>The events a run appended to the trace it started from.\<close>

definition new_events :: "world \<Rightarrow> world \<Rightarrow> event list" where
  "new_events w w' = drop (length (events w)) (events w')"

subsection \<open>Sample library, environments and worlds\<close>

definition example_pil :: pil where
  "example_pil =
     \<lparr>decode = (\<lambda>c. case c of PngFile im \<Rightarrow> Some im | IcoFile frames \<Rightarrow> None | Blob bs \<Rightarrow> None),
      convert_data = (\<lambda>m im. data im),
      resample = (\<lambda>flt im sz. data im),
      scaled_frame = (\<lambda>ims sz. \<lparr>im_size = sz, mode = ''RGBA'', data = []\<rparr>)\<rparr>"

definition example_icon :: image where
  "example_icon = \<lparr>im_size = (800, 600), mode = ''RGB'', data = [7]\<rparr>"

definition example_img :: image where
  "example_img = \<lparr>im_size = (800, 600), mode = ''RGBA'', data = [7]\<rparr>"

definition no_faults :: faults where
  "no_faults = \<lparr>mkdir_denied = (\<lambda>p. False), save_fault = Map.empty\<rparr>"

definition disk_full :: faults where
  "disk_full =
     \<lparr>mkdir_denied = (\<lambda>p. False),
      save_fault = [''favicons/favicon-48x48.png'' \<mapsto> None]\<rparr>"

definition example_world :: world where
  "example_world =
     \<lparr>dirs = {''favicons''},
      files = [''icon.png'' \<mapsto> PngFile example_icon, ''favicons/notes.txt'' \<mapsto> Blob [1, 2, 3]],
      events = []\<rparr>"

definition fresh_world :: world where
  "fresh_world = \<lparr>dirs = {}, files = [''icon.png'' \<mapsto> PngFile example_icon], events = []\<rparr>"

definition bare_world :: world where
  "bare_world = \<lparr>dirs = {}, files = Map.empty, events = []\<rparr>"

section \<open>Proofs\<close>

subsection \<open>Sequential writes\<close>

lemma written_append: "written (xs @ ys) = written xs @ written ys"
  by (induction xs rule: written.induct) simp_all

lemma printed_append: "printed (xs @ ys) = printed xs @ printed ys"
  by (induction xs rule: printed.induct) simp_all

lemma dirs_after: "dirs (after xs w) = dirs w"
  by (induction xs w rule: after.induct) simp_all

lemma events_after:
  "events (after xs w) = events w @ concat (map (\<lambda>x. [Wrote (fst (fst x)) (snd (fst x)), Printed (snd x)]) xs)"
  by (induction xs w rule: after.induct) simp_all

lemma files_after: "files (after xs w) = files w ++ map_of (rev (map fst xs))"
proof (induction xs w rule: after.induct)
  case (1 w)
  then show ?case by simp
next
  case (2 p c line rest w)
  let ?w = "w\<lparr>files := (files w)(p \<mapsto> c), events := events w @ [Wrote p c, Printed line]\<rparr>"
  have a: "files (after (((p, c), line) # rest) w) = files (after rest ?w)"
    by (simp only: after.simps)
  have b: "files (after rest ?w) = files ?w ++ map_of (rev (map fst rest))"
    by (rule 2)
  have c: "files ?w ++ map_of (rev (map fst rest))
           = files w ++ map_of (rev (map fst (((p, c), line) # rest)))"
    by (auto simp: fun_eq_iff map_add_def split: option.splits)
  show ?case
    by (simp only: a b c)
qed

lemma can_save_dirs: "dirs w' = dirs w \<Longrightarrow> can_save F w' = can_save F w"
  by (simp add: can_save_def fun_eq_iff)

lemma write_file_ok:
  "can_save F w p \<Longrightarrow>
   write_file F p c w = Done () (w\<lparr>files := (files w)(p \<mapsto> c), events := events w @ [Wrote p c]\<rparr>)"
  by (simp add: write_file_def can_save_def)

lemma write_file_fail: "\<not> can_save F w p \<Longrightarrow> write_file F p c w = Raised WriteError (crash F p w)"
  by (auto simp: write_file_def can_save_def crash_def split: option.splits)

lemma write_all_ok:
  "list_all (\<lambda>x. can_save F w (fst (fst x))) xs \<Longrightarrow> write_all F xs w = Done () (after xs w)"
proof (induction xs w rule: after.induct)
  case (1 w)
  then show ?case by simp
next
  case (2 p c line rest w)
  let ?w = "w\<lparr>files := (files w)(p \<mapsto> c), events := events w @ [Wrote p c, Printed line]\<rparr>"
  have "can_save F ?w = can_save F w"
    by (rule can_save_dirs) simp
  with 2 show ?case
    by (simp add: write_file_ok print_def)
qed

lemma write_all_append:
  "write_all F (xs @ ys) w =
     (case write_all F xs w of Raised e w' \<Rightarrow> Raised e w' | Done u w' \<Rightarrow> write_all F ys w')"
  by (induction F xs w rule: write_all.induct) (simp_all split: outcome.splits)

lemma write_all_fail:
  assumes "list_all (\<lambda>x. can_save F w (fst (fst x))) ys" and "\<not> can_save F w (fst (fst x))"
  shows "write_all F (ys @ x # zs) w = Raised WriteError (crash F (fst (fst x)) (after ys w))"
proof -
  have "can_save F (after ys w) = can_save F w"
    by (rule can_save_dirs) (simp add: dirs_after)
  with assms(2) have "\<not> can_save F (after ys w) (fst (fst x))"
    by simp
  then show ?thesis
    using assms(1) by (cases x, cases "fst x") (simp add: write_all_append write_all_ok write_file_fail)
qed


lemma makedirs_ok:
  "can_makedirs F w d \<Longrightarrow> makedirs F d True w = Done () (w\<lparr>dirs := insert d (dirs w)\<rparr>)"
  by (auto simp: can_makedirs_def makedirs_def insert_absorb split: if_splits)

lemma makedirs_fail:
  "\<not> can_makedirs F w d \<Longrightarrow> makedirs F d True w = Raised DirectoryError w"
  by (auto simp: can_makedirs_def makedirs_def split: if_splits)

lemma load_source_dirs: "load_source L (w\<lparr>dirs := X\<rparr>) = load_source L w"
  by (simp add: load_source_def)

lemma save_png:
  "x \<noteq> [] \<Longrightarrow> hd x \<noteq> CHR ''/'' \<Longrightarrow>
   save L F im (path_join OUTPUT_DIR (x @ ''.png'')) no_kwargs w
   = write_file F (''favicons/'' @ x @ ''.png'') (PngFile im) w"
  by (cases x) (simp_all add: save_def no_kwargs_def ext_format_def path_join_def OUTPUT_DIR_def suffix_def)

lemma save_ico:
  "save L F (map (\<lambda>s. resize L img s LANCZOS) ico_sizes ! 0) (path_join OUTPUT_DIR ''favicon.ico'')
     \<lparr>kw_format = Some ICO, kw_sizes = Some ico_sizes,
      kw_append_images = drop 1 (map (\<lambda>s. resize L img s LANCZOS) ico_sizes)\<rparr> w
   = write_file F ''favicons/favicon.ico'' (IcoFile [resize L img (16, 16) LANCZOS]) w"
  by (simp add: save_def ico_frames_def ico_sizes_def sorted_list_of_set_sort_remdups resize_def
      path_join_def OUTPUT_DIR_def)

lemma square_loop_write_all:
  "square_loop L F img ss w =
   write_all F
     (map (\<lambda>S. ((''favicons/favicon-'' @ str S @ ''x'' @ str S @ ''.png'',
                  PngFile (resize L img (S, S) LANCZOS)),
                 ''Created favicon-'' @ str S @ ''x'' @ str S @ ''.png'')) ss) w"
proof (induction ss arbitrary: w)
  case Nil
  then show ?case by simp
next
  case (Cons S ss)
  have "save L F (resize L img (S, S) LANCZOS)
          (path_join OUTPUT_DIR (''favicon-'' @ str S @ ''x'' @ str S @ ''.png'')) no_kwargs w
        = write_file F (''favicons/favicon-'' @ str S @ ''x'' @ str S @ ''.png'')
            (PngFile (resize L img (S, S) LANCZOS)) w"
    using save_png [where x = "''favicon-'' @ str S @ ''x'' @ str S"] by simp
  with Cons show ?case
    by (simp split: outcome.splits)
qed

lemma steps_explicit:
  "map (\<lambda>S. ((''favicons/favicon-'' @ str S @ ''x'' @ str S @ ''.png'',
               PngFile (resize L img (S, S) LANCZOS)),
              ''Created favicon-'' @ str S @ ''x'' @ str S @ ''.png'')) sizes
   @ [((''favicons/favicon.ico'', IcoFile [resize L img (16, 16) LANCZOS]), ''Created favicon.ico''),
      ((''favicons/apple-touch-icon.png'', PngFile (resize L img (180, 180) LANCZOS)),
       ''Created apple-touch-icon.png'')]
   = zip (artifacts L img) progress"
  by (simp add: sizes_def artifacts_def progress_def str.simps digit_def)

lemma generate_favicons_steps:
  assumes "can_makedirs F w OUTPUT_DIR" and "load_source L w = Inr img"
  shows "generate_favicons L F w =
          (case write_all F (zip (artifacts L img) progress) (w\<lparr>dirs := insert OUTPUT_DIR (dirs w)\<rparr>) of
             Raised e w' \<Rightarrow> Raised e w'
           | Done u w' \<Rightarrow> Done () (print summary w'))"
proof -
  have apple:
    "\<And>w. save L F (resize L img (180, 180) LANCZOS)
            (path_join OUTPUT_DIR ''apple-touch-icon.png'') no_kwargs w
          = write_file F ''favicons/apple-touch-icon.png'' (PngFile (resize L img (180, 180) LANCZOS)) w"
    using save_png [where x = "''apple-touch-icon''"] by simp
  have fin: "CHR 0x0A # ''All favicons saved to '' @ [CHR 0x27] @ OUTPUT_DIR @ ''/'' @ [CHR 0x27] = summary"
    by (simp add: summary_def OUTPUT_DIR_def)
  show ?thesis
    unfolding generate_favicons_def fin steps_explicit [symmetric] write_all_append
    by (simp add: makedirs_ok assms load_source_dirs square_loop_write_all save_ico apple
        Let_def split: outcome.splits del: One_nat_def)
qed

subsection \<open>The outcome of a run\<close>

lemma paths_artifacts: "map fst (artifacts L img) = output_paths"
  by (simp add: artifacts_def output_paths_def)

lemma length_artifacts: "length (artifacts L img) = 10"
  by (simp add: artifacts_def)

lemma length_progress: "length progress = 10"
  by (simp add: progress_def)

lemma length_output_paths: "length output_paths = 10"
  by (simp add: output_paths_def)

lemma distinct_output_paths: "distinct output_paths"
  by (simp add: output_paths_def)

lemma output_dir_not_output: "OUTPUT_DIR \<notin> set output_paths"
  by (simp add: output_paths_def OUTPUT_DIR_def)

lemma source_not_output: "SOURCE \<notin> set output_paths"
  by (simp add: output_paths_def SOURCE_def)

lemma step_paths: "map (\<lambda>x. fst (fst x)) (zip (artifacts L img) progress) = output_paths"
proof -
  have "map fst (zip (artifacts L img) progress) = artifacts L img"
    by (simp add: length_artifacts length_progress)
  then have "map fst (map fst (zip (artifacts L img) progress)) = output_paths"
    by (simp only: paths_artifacts)
  then show ?thesis
    by (simp add: comp_def)
qed

lemma can_save_made:
  "p \<in> set output_paths \<Longrightarrow> can_save F (w\<lparr>dirs := insert OUTPUT_DIR (dirs w)\<rparr>) p = can_save F w p"
  using output_dir_not_output by (auto simp: can_save_def)

lemma takeWhile_can_save_made:
  "set ps \<subseteq> set output_paths \<Longrightarrow>
   takeWhile (can_save F (w\<lparr>dirs := insert OUTPUT_DIR (dirs w)\<rparr>)) ps = takeWhile (can_save F w) ps"
  by (rule takeWhile_cong) (auto simp: can_save_made)

lemma write_all_outcome:
  "write_all F xs w =
     (let k = length (takeWhile (can_save F w) (map (\<lambda>x. fst (fst x)) xs))
      in if k = length xs then Done () (after xs w)
         else Raised WriteError (crash F (fst (fst (xs ! k))) (after (take k xs) w)))"
proof -
  let ?P = "\<lambda>x. can_save F w (fst (fst x))"
  let ?k = "length (takeWhile ?P xs)"
  have k: "length (takeWhile (can_save F w) (map (\<lambda>x. fst (fst x)) xs)) = ?k"
    by (simp add: takeWhile_map comp_def)
  show ?thesis
  proof (cases "?k = length xs")
    case True
    then have "takeWhile ?P xs = xs"
      by (metis takeWhile_eq_take take_all order_refl)
    then have "list_all ?P xs"
      by (simp add: takeWhile_eq_all_conv list_all_iff)
    then have "write_all F xs w = Done () (after xs w)"
      by (rule write_all_ok)
    then show ?thesis
      unfolding Let_def k using True by simp
  next
    case False
    then have lt: "?k < length xs"
      using length_takeWhile_le [of ?P xs] by simp
    have bad: "\<not> ?P (xs ! ?k)"
      using lt by (rule nth_length_takeWhile)
    have good: "list_all ?P (take ?k xs)"
      by (metis takeWhile_eq_take list_all_iff set_takeWhileD)
    have "xs = take ?k xs @ xs ! ?k # drop (Suc ?k) xs"
      using lt by (rule id_take_nth_drop)
    then have "write_all F xs w = write_all F (take ?k xs @ xs ! ?k # drop (Suc ?k) xs) w"
      by simp
    also have "\<dots> = Raised WriteError (crash F (fst (fst (xs ! ?k))) (after (take ?k xs) w))"
      using good bad by (rule write_all_fail)
    finally have "write_all F xs w
        = Raised WriteError (crash F (fst (fst (xs ! ?k))) (after (take ?k xs) w))" .
    then show ?thesis
      unfolding Let_def k using False by (simp only: if_False)
  qed
qed

lemma saves_done_le: "saves_done F w \<le> 10"
  using length_takeWhile_le [of "can_save F w" output_paths]
  by (simp add: saves_done_def length_output_paths)

lemma saves_done_all: "(saves_done F w = 10) = list_all (can_save F w) output_paths"
proof
  assume "saves_done F w = 10"
  then have "length (takeWhile (can_save F w) output_paths) = length output_paths"
    by (simp add: saves_done_def length_output_paths)
  then have "takeWhile (can_save F w) output_paths = output_paths"
    by (metis takeWhile_eq_take take_all order_refl)
  then show "list_all (can_save F w) output_paths"
    by (simp add: takeWhile_eq_all_conv list_all_iff)
next
  assume "list_all (can_save F w) output_paths"
  then have "takeWhile (can_save F w) output_paths = output_paths"
    by (simp add: takeWhile_eq_all_conv list_all_iff)
  then have "length (takeWhile (can_save F w) output_paths) = length output_paths"
    by (rule arg_cong)
  then show "saves_done F w = 10"
    by (simp only: saves_done_def length_output_paths)
qed

lemma run_outcome:
  assumes "can_makedirs F w OUTPUT_DIR" and "load_source L w = Inr img"
  shows "generate_favicons L F w =
          (if saves_done F w = 10
           then Done () (print summary
                  (after (zip (artifacts L img) progress) (w\<lparr>dirs := insert OUTPUT_DIR (dirs w)\<rparr>)))
           else Raised WriteError
                  (crash F (output_paths ! saves_done F w)
                     (after (take (saves_done F w) (zip (artifacts L img) progress))
                        (w\<lparr>dirs := insert OUTPUT_DIR (dirs w)\<rparr>))))"
proof -
  let ?xs = "zip (artifacts L img) progress"
  let ?w1 = "w\<lparr>dirs := insert OUTPUT_DIR (dirs w)\<rparr>"
  have k: "length (takeWhile (can_save F ?w1) (map (\<lambda>x. fst (fst x)) ?xs)) = saves_done F w"
    by (simp only: step_paths saves_done_def takeWhile_can_save_made [OF subset_refl])
  have len: "length ?xs = 10"
    by (simp add: length_artifacts length_progress)
  have nth: "saves_done F w < 10 \<Longrightarrow> fst (fst (?xs ! saves_done F w)) = output_paths ! saves_done F w"
    using step_paths [of L img] len by (metis nth_map)
  show ?thesis
    unfolding generate_favicons_steps [OF assms] write_all_outcome [of F ?xs ?w1] k len Let_def
    using nth saves_done_le [of F w] by auto
qed

lemma run_no_dir:
  "\<not> can_makedirs F w OUTPUT_DIR \<Longrightarrow> generate_favicons L F w = Raised DirectoryError w"
  by (simp add: generate_favicons_def makedirs_fail)

lemma load_source_Inl:
  "(load_source L w = Inl e) =
   (e = DecodeError \<and> (case files w SOURCE of None \<Rightarrow> None | Some c \<Rightarrow> decode L c) = None)"
  by (auto simp: load_source_def split: option.splits)

lemma run_no_source:
  assumes "can_makedirs F w OUTPUT_DIR"
      and "(case files w SOURCE of None \<Rightarrow> None | Some c \<Rightarrow> decode L c) = None"
  shows "generate_favicons L F w = Raised DecodeError (w\<lparr>dirs := insert OUTPUT_DIR (dirs w)\<rparr>)"
proof -
  have "load_source L w = Inl DecodeError"
    using assms(2) by (simp add: load_source_Inl)
  then show ?thesis
    by (simp add: generate_favicons_def makedirs_ok assms(1) load_source_dirs)
qed

subsection \<open>The world a run ends in\<close>

lemma written_steps:
  "written (concat (map (\<lambda>x. [Wrote (fst (fst x)) (snd (fst x)), Printed (snd x)]) xs)) = map fst xs"
  by (induction xs) simp_all

lemma printed_steps:
  "printed (concat (map (\<lambda>x. [Wrote (fst (fst x)) (snd (fst x)), Printed (snd x)]) xs)) = map snd xs"
  by (induction xs) simp_all

lemma dirs_crash: "dirs (crash F p w) = dirs w"
  by (simp add: crash_def split: option.splits)

lemma events_crash: "events (crash F p w) = events w"
  by (simp add: crash_def split: option.splits)

lemma files_crash: "q \<noteq> p \<Longrightarrow> files (crash F p w) q = files w q"
  by (simp add: crash_def split: option.splits)

lemma new_events_append: "events w' = events w @ es \<Longrightarrow> new_events w w' = es"
  by (simp add: new_events_def)

lemma take_steps:
  "map fst (take k (zip (artifacts L img) progress)) = take k (artifacts L img)"
  "map snd (take k (zip (artifacts L img) progress)) = take k progress"
  by (simp_all add: take_map [symmetric] length_artifacts length_progress)

lemma run_world:
  assumes "can_makedirs F w OUTPUT_DIR" and "load_source L w = Inr img"
  shows "world_of (generate_favicons L F w) =
          (if saves_done F w = 10
           then print summary
                  (after (zip (artifacts L img) progress) (w\<lparr>dirs := insert OUTPUT_DIR (dirs w)\<rparr>))
           else crash F (output_paths ! saves_done F w)
                  (after (take (saves_done F w) (zip (artifacts L img) progress))
                     (w\<lparr>dirs := insert OUTPUT_DIR (dirs w)\<rparr>)))"
  by (simp add: run_outcome [OF assms])

lemma run_dirs:
  assumes "can_makedirs F w OUTPUT_DIR" and "load_source L w = Inr img"
  shows "dirs (world_of (generate_favicons L F w)) = insert OUTPUT_DIR (dirs w)"
  by (simp add: run_world [OF assms] print_def dirs_after dirs_crash)

lemma run_events:
  assumes "can_makedirs F w OUTPUT_DIR" and "load_source L w = Inr img"
  shows "new_events w (world_of (generate_favicons L F w)) =
          concat (map (\<lambda>x. [Wrote (fst (fst x)) (snd (fst x)), Printed (snd x)])
                    (take (saves_done F w) (zip (artifacts L img) progress)))
          @ (if saves_done F w = 10 then [Printed summary] else [])"
proof (rule new_events_append)
  have "length (zip (artifacts L img) progress) = 10"
    by (simp add: length_artifacts length_progress)
  then have "take 10 (zip (artifacts L img) progress) = zip (artifacts L img) progress"
    by simp
  then show "events (world_of (generate_favicons L F w)) =
          events w @ concat (map (\<lambda>x. [Wrote (fst (fst x)) (snd (fst x)), Printed (snd x)])
                    (take (saves_done F w) (zip (artifacts L img) progress)))
          @ (if saves_done F w = 10 then [Printed summary] else [])"
    by (simp add: run_world [OF assms] print_def events_after events_crash)
qed

lemma run_written:
  assumes "can_makedirs F w OUTPUT_DIR" and "load_source L w = Inr img"
  shows "written (new_events w (world_of (generate_favicons L F w)))
         = take (saves_done F w) (artifacts L img)"
  by (simp add: run_events [OF assms] written_append written_steps take_steps)

lemma run_printed:
  assumes "can_makedirs F w OUTPUT_DIR" and "load_source L w = Inr img"
  shows "printed (new_events w (world_of (generate_favicons L F w)))
         = take (saves_done F w) progress @ (if saves_done F w = 10 then [summary] else [])"
  by (simp add: run_events [OF assms] printed_append printed_steps take_steps)

lemma run_files:
  assumes "can_makedirs F w OUTPUT_DIR" and "load_source L w = Inr img"
      and "saves_done F w = 10 \<or> q \<noteq> output_paths ! saves_done F w"
  shows "files (world_of (generate_favicons L F w)) q
         = (files w ++ map_of (rev (take (saves_done F w) (artifacts L img)))) q"
proof (cases "saves_done F w = 10")
  case True
  have "take 10 (artifacts L img) = artifacts L img"
    by (simp add: length_artifacts)
  then show ?thesis
    using True
    by (simp add: run_world [OF assms(1,2)] print_def files_after length_artifacts length_progress)
next
  case False
  with assms(3) have "q \<noteq> output_paths ! saves_done F w"
    by simp
  then show ?thesis
    using False
    by (simp add: run_world [OF assms(1,2)] files_crash files_after take_steps)
qed

lemma distinct_take_artifacts: "distinct (map fst (rev (take k (artifacts L img))))"
proof -
  have "distinct (take k (map fst (artifacts L img)))"
    by (simp only: paths_artifacts distinct_take distinct_output_paths)
  then show ?thesis
    by (simp add: take_map rev_map [symmetric])
qed

lemma run_files_written:
  assumes "can_makedirs F w OUTPUT_DIR" and "load_source L w = Inr img"
      and "j < saves_done F w"
  shows "files (world_of (generate_favicons L F w)) (output_paths ! j)
         = Some (snd (artifacts L img ! j))"
proof -
  let ?k = "saves_done F w"
  have k: "?k \<le> 10"
    by (rule saves_done_le)
  have j: "j < 10"
    using assms(3) k by simp
  have ne: "?k = 10 \<or> output_paths ! j \<noteq> output_paths ! ?k"
    using assms(3) k distinct_output_paths j
    by (auto simp: nth_eq_iff_index_eq length_output_paths)
  have fst_j: "fst (artifacts L img ! j) = output_paths ! j"
    using j paths_artifacts [of L img] by (metis length_artifacts nth_map)
  have "j < length (take ?k (artifacts L img))"
    using assms(3) j by (simp add: length_artifacts)
  then have "take ?k (artifacts L img) ! j \<in> set (take ?k (artifacts L img))"
    by (rule nth_mem)
  then have "artifacts L img ! j \<in> set (rev (take ?k (artifacts L img)))"
    using assms(3) by simp
  then have "(output_paths ! j, snd (artifacts L img ! j)) \<in> set (rev (take ?k (artifacts L img)))"
    by (simp add: fst_j [symmetric])
  then have "map_of (rev (take ?k (artifacts L img))) (output_paths ! j) = Some (snd (artifacts L img ! j))"
    using distinct_take_artifacts by (rule map_of_is_SomeI [rotated])
  then show ?thesis
    by (simp add: run_files [OF assms(1,2) ne] map_add_def)
qed

lemma run_files_untouched:
  assumes "can_makedirs F w OUTPUT_DIR" and "load_source L w = Inr img"
      and "q \<notin> set (take (Suc (saves_done F w)) output_paths)"
  shows "files (world_of (generate_favicons L F w)) q = files w q"
proof -
  let ?k = "saves_done F w"
  have k: "?k \<le> 10"
    by (rule saves_done_le)
  have ne: "?k = 10 \<or> q \<noteq> output_paths ! ?k"
  proof (cases "?k = 10")
    case False
    then have "?k < length output_paths"
      using k by (simp add: length_output_paths)
    then have "output_paths ! ?k \<in> set (take (Suc ?k) output_paths)"
      by (simp add: take_Suc_conv_app_nth)
    with assms(3) show ?thesis by auto
  qed simp
  have "set (take ?k output_paths) \<subseteq> set (take (Suc ?k) output_paths)"
    by (rule set_take_subset_set_take) simp
  with assms(3) have "q \<notin> set (take ?k (map fst (artifacts L img)))"
    by (auto simp only: paths_artifacts)
  then have "q \<notin> dom (map_of (rev (take ?k (artifacts L img))))"
    by (simp add: dom_map_of_conv_image_fst take_map)
  then show ?thesis
    by (simp add: run_files [OF assms(1,2) ne] map_add_dom_app_simps)
qed

lemma run_files_prefix:
  assumes "can_makedirs F w OUTPUT_DIR" and "load_source L w = Inr img"
      and "n \<le> saves_done F w"
  shows "map (files (world_of (generate_favicons L F w))) (take n output_paths)
         = map (\<lambda>a. Some (snd a)) (take n (artifacts L img))"
proof (rule nth_equalityI)
  show "length (map (files (world_of (generate_favicons L F w))) (take n output_paths))
        = length (map (\<lambda>a. Some (snd a)) (take n (artifacts L img)))"
    by (simp add: length_output_paths length_artifacts)
next
  fix i
  assume "i < length (map (files (world_of (generate_favicons L F w))) (take n output_paths))"
  then have i: "i < n" "i < 10"
    by (simp_all add: length_output_paths)
  then have "i < saves_done F w"
    using assms(3) by simp
  then have "files (world_of (generate_favicons L F w)) (output_paths ! i)
             = Some (snd (artifacts L img ! i))"
    by (rule run_files_written [OF assms(1,2)])
  then show "map (files (world_of (generate_favicons L F w))) (take n output_paths) ! i
             = map (\<lambda>a. Some (snd a)) (take n (artifacts L img)) ! i"
    using i by (simp add: length_output_paths length_artifacts)
qed




lemma saves_done_bad:
  assumes "\<not> list_all (can_save F w) output_paths"
  shows "saves_done F w < 10" and "\<not> can_save F w (output_paths ! saves_done F w)"
proof -
  have "saves_done F w \<noteq> 10"
    using assms by (simp add: saves_done_all)
  then show lt: "saves_done F w < 10"
    using saves_done_le [of F w] by simp
  then have "length (takeWhile (can_save F w) output_paths) < length output_paths"
    by (simp add: saves_done_def length_output_paths)
  then have "\<not> can_save F w (output_paths ! length (takeWhile (can_save F w) output_paths))"
    by (rule nth_length_takeWhile)
  then show "\<not> can_save F w (output_paths ! saves_done F w)"
    by (simp add: saves_done_def)
qed

lemma run_files_later:
  assumes "can_makedirs F w OUTPUT_DIR" and "load_source L w = Inr img"
  shows "map (files (world_of (generate_favicons L F w))) (drop (Suc (saves_done F w)) output_paths)
         = map (files w) (drop (Suc (saves_done F w)) output_paths)"
proof (rule map_cong [OF refl])
  fix q
  assume q: "q \<in> set (drop (Suc (saves_done F w)) output_paths)"
  have "distinct (take (Suc (saves_done F w)) output_paths @ drop (Suc (saves_done F w)) output_paths)"
    by (simp only: append_take_drop_id distinct_output_paths)
  then have "q \<notin> set (take (Suc (saves_done F w)) output_paths)"
    using q by (auto simp only: distinct_append)
  then show "files (world_of (generate_favicons L F w)) q = files w q"
    by (rule run_files_untouched [OF assms])
qed

lemma new_events_same: "new_events w w = []"
  by (simp add: new_events_def)

lemma new_events_dirs: "new_events w (w\<lparr>dirs := X\<rparr>) = []"
  by (simp add: new_events_def)

lemma written_paths_subset:
  "fst ` set (written (new_events w (world_of (generate_favicons L F w)))) \<subseteq> set output_paths"
proof (cases "can_makedirs F w OUTPUT_DIR")
  case False
  then show ?thesis
    by (simp add: run_no_dir new_events_same)
next
  case True
  show ?thesis
  proof (cases "load_source L w")
    case (Inl e)
    then have "(case files w SOURCE of None \<Rightarrow> None | Some c \<Rightarrow> decode L c) = None"
      by (simp add: load_source_Inl)
    then show ?thesis
      by (simp add: run_no_source [OF True] new_events_dirs)
  next
    case (Inr img)
    have "set (take (saves_done F w) (artifacts L img)) \<subseteq> set (artifacts L img)"
      by (rule set_take_subset)
    then have "fst ` set (take (saves_done F w) (artifacts L img)) \<subseteq> fst ` set (artifacts L img)"
      by (rule image_mono)
    also have "fst ` set (artifacts L img) = set output_paths"
      by (simp only: set_map [symmetric] paths_artifacts)
    finally show ?thesis
      by (simp only: run_written [OF True Inr])
  qed
qed

lemma files_outside_outputs:
  assumes "p \<notin> set output_paths"
  shows "files (world_of (generate_favicons L F w)) p = files w p"
proof (cases "can_makedirs F w OUTPUT_DIR")
  case False
  then show ?thesis
    by (simp add: run_no_dir)
next
  case True
  show ?thesis
  proof (cases "load_source L w")
    case (Inl e)
    then have "(case files w SOURCE of None \<Rightarrow> None | Some c \<Rightarrow> decode L c) = None"
      by (simp add: load_source_Inl)
    then show ?thesis
      by (simp add: run_no_source [OF True])
  next
    case (Inr img)
    have "set (take (Suc (saves_done F w)) output_paths) \<subseteq> set output_paths"
      by (rule set_take_subset)
    with assms have "p \<notin> set (take (Suc (saves_done F w)) output_paths)"
      by auto
    then show ?thesis
      by (rule run_files_untouched [OF True Inr])
  qed
qed

lemma load_source_files: "files w' SOURCE = files w SOURCE \<Longrightarrow> load_source L w' = load_source L w"
  by (simp add: load_source_def)

lemma can_makedirs_exists: "OUTPUT_DIR \<in> dirs w \<Longrightarrow> can_makedirs F w OUTPUT_DIR"
  by (simp add: can_makedirs_def)

lemma can_save_after_run:
  assumes "dirs w' = insert OUTPUT_DIR (dirs w)"
  shows "list_all (can_save F w') output_paths = list_all (can_save F w) output_paths"
proof -
  have "\<And>p. p \<in> set output_paths \<Longrightarrow> can_save F w' p = can_save F w p"
    using assms output_dir_not_output by (auto simp: can_save_def)
  then show ?thesis
    by (simp add: list_all_iff)
qed

lemma run_files_all:
  assumes "can_makedirs F w OUTPUT_DIR" and "load_source L w = Inr img"
      and "list_all (can_save F w) output_paths"
  shows "files (world_of (generate_favicons L F w)) = files w ++ map_of (rev (artifacts L img))"
proof
  fix q
  have k: "saves_done F w = 10"
    using assms(3) by (simp add: saves_done_all)
  then show "files (world_of (generate_favicons L F w)) q
             = (files w ++ map_of (rev (artifacts L img))) q"
    using run_files [OF assms(1,2), of q] by (simp add: length_artifacts)
qed

lemma written_in_artifacts:
  assumes "(p, c) \<in> set (written (new_events w (world_of (generate_favicons L F w))))"
  shows "\<exists>img. (p, c) \<in> set (artifacts L img)"
proof (cases "can_makedirs F w OUTPUT_DIR")
  case False
  then show ?thesis
    using assms by (simp add: run_no_dir new_events_same)
next
  case True
  show ?thesis
  proof (cases "load_source L w")
    case (Inl e)
    then have "(case files w SOURCE of None \<Rightarrow> None | Some c \<Rightarrow> decode L c) = None"
      by (simp add: load_source_Inl)
    then show ?thesis
      using assms by (simp add: run_no_source [OF True] new_events_dirs)
  next
    case (Inr img)
    have "set (take (saves_done F w) (artifacts L img)) \<subseteq> set (artifacts L img)"
      by (rule set_take_subset)
    then have "(p, c) \<in> set (artifacts L img)"
      using assms by (auto simp only: run_written [OF True Inr])
    then show ?thesis ..
  qed
qed

lemma artifact_targets:
  "map (\<lambda>a. (fst a, map im_size (rasters (snd a)))) (artifacts L img) =
                 [(''favicons/favicon-16x16.png'', [(16, 16)]),
                  (''favicons/favicon-32x32.png'', [(32, 32)]),
                  (''favicons/favicon-48x48.png'', [(48, 48)]),
                  (''favicons/favicon-64x64.png'', [(64, 64)]),
                  (''favicons/favicon-128x128.png'', [(128, 128)]),
                  (''favicons/favicon-180x180.png'', [(180, 180)]),
                  (''favicons/favicon-192x192.png'', [(192, 192)]),
                  (''favicons/favicon-512x512.png'', [(512, 512)]),
                  (''favicons/favicon.ico'', [(16, 16)]),
                  (''favicons/apple-touch-icon.png'', [(180, 180)])]"
  by (simp add: artifacts_def resize_def)

lemma artifact_rasters:
  assumes "(p, c) \<in> set (artifacts L img)"
  shows "(p, map im_size (rasters c)) \<in> set
                 [(''favicons/favicon-16x16.png'', [(16, 16)]),
                  (''favicons/favicon-32x32.png'', [(32, 32)]),
                  (''favicons/favicon-48x48.png'', [(48, 48)]),
                  (''favicons/favicon-64x64.png'', [(64, 64)]),
                  (''favicons/favicon-128x128.png'', [(128, 128)]),
                  (''favicons/favicon-180x180.png'', [(180, 180)]),
                  (''favicons/favicon-192x192.png'', [(192, 192)]),
                  (''favicons/favicon-512x512.png'', [(512, 512)]),
                  (''favicons/favicon.ico'', [(16, 16)]),
                  (''favicons/apple-touch-icon.png'', [(180, 180)])]"
proof -
  have "(\<lambda>a. (fst a, map im_size (rasters (snd a)))) (p, c)
        \<in> (\<lambda>a. (fst a, map im_size (rasters (snd a)))) ` set (artifacts L img)"
    using assms by (rule imageI)
  then have "(p, map im_size (rasters c))
        \<in> set (map (\<lambda>a. (fst a, map im_size (rasters (snd a)))) (artifacts L img))"
    by simp
  then show ?thesis
    by (simp only: artifact_targets)
qed

lemma artifact_square:
  assumes "(p, c) \<in> set (artifacts L img)" and "im \<in> set (rasters c)"
  shows "fst (im_size im) = snd (im_size im)"
proof -
  have "list_all (\<lambda>a. list_all (\<lambda>im. fst (im_size im) = snd (im_size im)) (rasters (snd a)))
          (artifacts L img)"
    by (simp add: artifacts_def resize_def)
  then have "list_all (\<lambda>im. fst (im_size im) = snd (im_size im)) (rasters (snd (p, c)))"
    using assms(1) unfolding list_all_iff by (rule bspec)
  then show ?thesis
    using assms(2) by (simp add: list_all_iff)
qed

subsection \<open>The sample runs\<close>

lemma example_makedirs: "can_makedirs no_faults example_world OUTPUT_DIR"
  by (simp add: can_makedirs_def example_world_def OUTPUT_DIR_def)

lemma example_load: "load_source example_pil example_world = Inr example_img"
  by (simp add: load_source_def example_world_def SOURCE_def example_pil_def convert_def
      example_icon_def example_img_def)

lemma example_saves: "list_all (can_save no_faults example_world) output_paths"
  by (simp add: can_save_def output_paths_def example_world_def no_faults_def)

lemma example_disk_full: "saves_done disk_full example_world = 2"
  by (simp add: saves_done_def output_paths_def can_save_def disk_full_def example_world_def)

lemma example_resize:
  "resize example_pil example_img sz flt = \<lparr>im_size = sz, mode = ''RGBA'', data = [7]\<rparr>"
  by (simp add: resize_def example_img_def example_pil_def)

lemma example_makedirs_full: "can_makedirs disk_full example_world OUTPUT_DIR"
  by (simp add: can_makedirs_def example_world_def OUTPUT_DIR_def)

lemma example_not_all_saves: "\<not> list_all (can_save disk_full example_world) output_paths"
  by (simp add: can_save_def output_paths_def disk_full_def)

subsection \<open>Claims\<close>




text \<open>
  C2. The icon container a successful run leaves holds one raster, the 16 by 16 one:
  the script saves \<open>ico_images[0]\<close>, and the writer ignores every requested size
  larger than the image being saved, so the 32, 48 and 64 pixel rasters passed as
  \<open>append_images\<close> are never embedded.
\<close>

theorem icon_container_holds_one_raster:
  assumes "can_makedirs F w OUTPUT_DIR"
      and "load_source L w = Inr img"
      and "list_all (can_save F w) output_paths"
      and "w' = world_of (generate_favicons L F w)"
  shows "path_join OUTPUT_DIR ''favicon.ico'' = ''favicons/favicon.ico''
         \<and> files w' ''favicons/favicon.ico'' = Some (IcoFile [resize L img (16, 16) LANCZOS])
         \<and> ico_frames L (map (\<lambda>s. resize L img s LANCZOS) ico_sizes ! 0) ico_sizes
              (drop 1 (map (\<lambda>s. resize L img s LANCZOS) ico_sizes))
            = [resize L img (16, 16) LANCZOS]"
proof -
  have "saves_done F w = 10"
    using assms(3) by (simp add: saves_done_all)
  then have "files w' (output_paths ! 8) = Some (snd (artifacts L img ! 8))"
    using run_files_written [OF assms(1,2), of 8] assms(4) by simp
  then show ?thesis
    by (simp add: output_paths_def artifacts_def path_join_def OUTPUT_DIR_def
        ico_frames_def ico_sizes_def sorted_list_of_set_sort_remdups resize_def)
qed

theorem icon_container_holds_one_raster_witness:
  "can_makedirs no_faults example_world OUTPUT_DIR
   \<and> load_source example_pil example_world = Inr example_img
   \<and> list_all (can_save no_faults example_world) output_paths
   \<and> files (world_of (generate_favicons example_pil no_faults example_world))
        ''favicons/favicon.ico''
      = Some (IcoFile [\<lparr>im_size = (16, 16), mode = ''RGBA'', data = [7]\<rparr>])"
  using icon_container_holds_one_raster
    [where F = no_faults and w = example_world and L = example_pil and img = example_img
       and w' = "world_of (generate_favicons example_pil no_faults example_world)"]
  by (simp add: example_makedirs example_load example_saves example_resize)

text \<open>
  C3, as amended. Whatever happens in a run, a path that is not one of the ten output
  paths (the eight square PNGs, \<open>favicon.ico\<close> and \<open>apple-touch-icon.png\<close> under
  \<open>favicons/\<close>) is never written, and the file there, if any, is as it was.
\<close>

theorem only_output_paths_touched:
  assumes "p \<notin> set output_paths"
      and "w' = world_of (generate_favicons L F w)"
  shows "files w' p = files w p
         \<and> p \<notin> fst ` set (written (new_events w w'))
         \<and> length output_paths = 10
         \<and> distinct output_paths"
proof -
  have a: "files w' p = files w p"
    unfolding assms(2) using assms(1) by (rule files_outside_outputs)
  have b: "p \<notin> fst ` set (written (new_events w w'))"
    unfolding assms(2) using assms(1) written_paths_subset [of w L F] by auto
  show ?thesis
    using a b length_output_paths distinct_output_paths by (intro conjI)
qed

theorem only_output_paths_touched_witness:
  "''favicons/notes.txt'' \<notin> set output_paths
   \<and> files (world_of (generate_favicons example_pil no_faults example_world)) ''favicons/notes.txt''
      = Some (Blob [1, 2, 3])
   \<and> ''favicons/notes.txt'' \<notin> fst ` set (written (new_events example_world
        (world_of (generate_favicons example_pil no_faults example_world))))"
proof -
  have out: "''favicons/notes.txt'' \<notin> set output_paths"
    by (simp add: output_paths_def)
  note run = only_output_paths_touched
    [where p = "''favicons/notes.txt''" and w = example_world and L = example_pil and F = no_faults
       and w' = "world_of (generate_favicons example_pil no_faults example_world)", OF out refl]
  have "files (world_of (generate_favicons example_pil no_faults example_world)) ''favicons/notes.txt''
        = Some (Blob [1, 2, 3])"
    using run by (simp add: example_world_def)
  then show ?thesis
    using out run by simp
qed

text \<open>
  C3, as stated, fails on the count: a successful run in a directory that already holds
  an unrelated file writes ten distinct paths, not nine.
\<close>

theorem nine_output_files_counterexample:
  "card (fst ` set (written (new_events example_world
      (world_of (generate_favicons example_pil no_faults example_world))))) = 10
   \<and> \<not> card (fst ` set (written (new_events example_world
      (world_of (generate_favicons example_pil no_faults example_world))))) \<le> 9"
proof -
  have k: "saves_done no_faults example_world = 10"
    using example_saves by (simp add: saves_done_all)
  have "written (new_events example_world
          (world_of (generate_favicons example_pil no_faults example_world)))
        = artifacts example_pil example_img"
    using run_written [OF example_makedirs example_load] k by (simp add: length_artifacts)
  then have "fst ` set (written (new_events example_world
          (world_of (generate_favicons example_pil no_faults example_world))))
        = set output_paths"
    by (simp only: set_map [symmetric] paths_artifacts)
  then have "card (fst ` set (written (new_events example_world
          (world_of (generate_favicons example_pil no_faults example_world))))) = 10"
    using distinct_card [OF distinct_output_paths] by (simp add: length_output_paths)
  then show ?thesis
    by simp
qed



text \<open>
  C5. Running the generator again on what a successful run left behind, in the same
  environment, succeeds again, writes the same ten files with the same contents, and
  leaves the files and directories exactly as the first run left them: names and
  contents depend on the size constants and the decoded source only, and no run
  touches the source.
\<close>

theorem rerun_is_idempotent:
  assumes "can_makedirs F w OUTPUT_DIR"
      and "load_source L w = Inr img"
      and "list_all (can_save F w) output_paths"
      and "wa = world_of (generate_favicons L F w)"
      and "wb = world_of (generate_favicons L F wa)"
  shows "generate_favicons L F w = Done () wa
         \<and> generate_favicons L F wa = Done () wb
         \<and> load_source L wa = Inr img
         \<and> files wb = files wa
         \<and> dirs wb = dirs wa
         \<and> written (new_events wa wb) = written (new_events w wa)"
proof -
  have k: "saves_done F w = 10"
    using assms(3) by (simp add: saves_done_all)
  have first: "generate_favicons L F w = Done () wa"
    using run_outcome [OF assms(1,2)] k assms(4) by simp
  have d1: "dirs wa = insert OUTPUT_DIR (dirs w)"
    unfolding assms(4) by (rule run_dirs [OF assms(1,2)])
  then have mk1: "can_makedirs F wa OUTPUT_DIR"
    by (simp add: can_makedirs_exists)
  have "files wa SOURCE = files w SOURCE"
    unfolding assms(4) using source_not_output by (rule files_outside_outputs)
  then have "load_source L wa = load_source L w"
    by (rule load_source_files)
  then have ld1: "load_source L wa = Inr img"
    using assms(2) by simp
  have sv1: "list_all (can_save F wa) output_paths"
    using assms(3) by (simp only: can_save_after_run [OF d1])
  then have k1: "saves_done F wa = 10"
    by (simp add: saves_done_all)
  have second: "generate_favicons L F wa = Done () wb"
    using run_outcome [OF mk1 ld1] k1 assms(5) by simp
  have f1: "files wa = files w ++ map_of (rev (artifacts L img))"
    unfolding assms(4) by (rule run_files_all [OF assms(1,2,3)])
  have f2: "files wb = files wa ++ map_of (rev (artifacts L img))"
    unfolding assms(5) by (rule run_files_all [OF mk1 ld1 sv1])
  have files: "files wb = files wa"
    unfolding f2 unfolding f1 by (auto simp: fun_eq_iff map_add_def split: option.splits)
  have "dirs wb = insert OUTPUT_DIR (dirs wa)"
    unfolding assms(5) by (rule run_dirs [OF mk1 ld1])
  then have dirs: "dirs wb = dirs wa"
    using d1 by simp
  have "written (new_events w wa) = take 10 (artifacts L img)"
    using run_written [OF assms(1,2)] k assms(4) by simp
  moreover have "written (new_events wa wb) = take 10 (artifacts L img)"
    using run_written [OF mk1 ld1] k1 assms(5) by simp
  ultimately have wr: "written (new_events wa wb) = written (new_events w wa)"
    by simp
  show ?thesis
    using first second ld1 files dirs wr by (intro conjI)
qed

lemma example_makedirs_fresh: "can_makedirs no_faults fresh_world OUTPUT_DIR"
  by (simp add: can_makedirs_def fresh_world_def OUTPUT_DIR_def no_faults_def SOURCE_def)

lemma example_load_fresh: "load_source example_pil fresh_world = Inr example_img"
  by (simp add: load_source_def fresh_world_def SOURCE_def example_pil_def convert_def
      example_icon_def example_img_def)

lemma example_saves_fresh: "list_all (can_save no_faults fresh_world) output_paths"
  by (simp add: can_save_def output_paths_def fresh_world_def no_faults_def)

theorem rerun_is_idempotent_witness:
  "can_makedirs no_faults fresh_world OUTPUT_DIR
   \<and> load_source example_pil fresh_world = Inr example_img
   \<and> list_all (can_save no_faults fresh_world) output_paths
   \<and> generate_favicons example_pil no_faults (world_of (generate_favicons example_pil no_faults fresh_world))
       = Done () (world_of (generate_favicons example_pil no_faults
            (world_of (generate_favicons example_pil no_faults fresh_world))))
   \<and> files (world_of (generate_favicons example_pil no_faults
        (world_of (generate_favicons example_pil no_faults fresh_world))))
      = files (world_of (generate_favicons example_pil no_faults fresh_world))
   \<and> dirs (world_of (generate_favicons example_pil no_faults
        (world_of (generate_favicons example_pil no_faults fresh_world))))
      = dirs (world_of (generate_favicons example_pil no_faults fresh_world))"
proof -
  note run = rerun_is_idempotent
    [where F = no_faults and w = fresh_world and L = example_pil and img = example_img
       and wa = "world_of (generate_favicons example_pil no_faults fresh_world)"
       and wb = "world_of (generate_favicons example_pil no_faults
                   (world_of (generate_favicons example_pil no_faults fresh_world)))",
     OF example_makedirs_fresh example_load_fresh example_saves_fresh refl refl]
  show ?thesis
    using example_makedirs_fresh example_load_fresh example_saves_fresh
      run [THEN conjunct2, THEN conjunct1]
      run [THEN conjunct2, THEN conjunct2, THEN conjunct2, THEN conjunct1]
      run [THEN conjunct2, THEN conjunct2, THEN conjunct2, THEN conjunct2, THEN conjunct1]
    by (intro conjI)
qed

text \<open>
  C6. Every file a run writes, whatever the size and shape of the source and however
  the run ends, holds rasters of exactly its target size, and every raster written is
  square: each square PNG is S by S, the icon container's raster is 16 by 16, the touch
  icon is 180 by 180. The resize takes the target size and ignores the source's aspect
  ratio.
\<close>

theorem written_rasters_are_square:
  assumes "w' = world_of (generate_favicons L F w)"
      and "(p, c) \<in> set (written (new_events w w'))"
      and "im \<in> set (rasters c)"
  shows "fst (im_size im) = snd (im_size im)
         \<and> (p, map im_size (rasters c)) \<in> set
                 [(''favicons/favicon-16x16.png'', [(16, 16)]),
                  (''favicons/favicon-32x32.png'', [(32, 32)]),
                  (''favicons/favicon-48x48.png'', [(48, 48)]),
                  (''favicons/favicon-64x64.png'', [(64, 64)]),
                  (''favicons/favicon-128x128.png'', [(128, 128)]),
                  (''favicons/favicon-180x180.png'', [(180, 180)]),
                  (''favicons/favicon-192x192.png'', [(192, 192)]),
                  (''favicons/favicon-512x512.png'', [(512, 512)]),
                  (''favicons/favicon.ico'', [(16, 16)]),
                  (''favicons/apple-touch-icon.png'', [(180, 180)])]"
proof -
  obtain img where art: "(p, c) \<in> set (artifacts L img)"
    using assms(1,2) written_in_artifacts by blast
  then have target: "(p, map im_size (rasters c)) \<in> set
                 [(''favicons/favicon-16x16.png'', [(16, 16)]),
                  (''favicons/favicon-32x32.png'', [(32, 32)]),
                  (''favicons/favicon-48x48.png'', [(48, 48)]),
                  (''favicons/favicon-64x64.png'', [(64, 64)]),
                  (''favicons/favicon-128x128.png'', [(128, 128)]),
                  (''favicons/favicon-180x180.png'', [(180, 180)]),
                  (''favicons/favicon-192x192.png'', [(192, 192)]),
                  (''favicons/favicon-512x512.png'', [(512, 512)]),
                  (''favicons/favicon.ico'', [(16, 16)]),
                  (''favicons/apple-touch-icon.png'', [(180, 180)])]"
    by (rule artifact_rasters)
  have "fst (im_size im) = snd (im_size im)"
    using art assms(3) by (rule artifact_square)
  then show ?thesis
    using target by (intro conjI)
qed

theorem written_rasters_are_square_witness:
  "im_size example_img = (800, 600)
   \<and> load_source example_pil example_world = Inr example_img
   \<and> (''favicons/favicon.ico'', IcoFile [resize example_pil example_img (16, 16) LANCZOS])
        \<in> set (written (new_events example_world
              (world_of (generate_favicons example_pil no_faults example_world))))
   \<and> resize example_pil example_img (16, 16) LANCZOS
        \<in> set (rasters (IcoFile [resize example_pil example_img (16, 16) LANCZOS]))
   \<and> fst (im_size (resize example_pil example_img (16, 16) LANCZOS))
      = snd (im_size (resize example_pil example_img (16, 16) LANCZOS))"
proof -
  have k: "saves_done no_faults example_world = 10"
    using example_saves by (simp add: saves_done_all)
  have "written (new_events example_world
          (world_of (generate_favicons example_pil no_faults example_world)))
        = artifacts example_pil example_img"
    using run_written [OF example_makedirs example_load] k by (simp add: length_artifacts)
  then have wr: "(''favicons/favicon.ico'', IcoFile [resize example_pil example_img (16, 16) LANCZOS])
        \<in> set (written (new_events example_world
              (world_of (generate_favicons example_pil no_faults example_world))))"
    by (simp add: artifacts_def)
  have im: "resize example_pil example_img (16, 16) LANCZOS
        \<in> set (rasters (IcoFile [resize example_pil example_img (16, 16) LANCZOS]))"
    by simp
  have src: "im_size example_img = (800, 600)"
    by (simp add: example_img_def)
  note run = written_rasters_are_square
    [where w = example_world and L = example_pil and F = no_faults
       and w' = "world_of (generate_favicons example_pil no_faults example_world)"
       and p = "''favicons/favicon.ico''"
       and c = "IcoFile [resize example_pil example_img (16, 16) LANCZOS]"
       and im = "resize example_pil example_img (16, 16) LANCZOS",
     OF refl wr im]
  show ?thesis
    using src example_load wr im run [THEN conjunct1] by (intro conjI)
qed

text \<open>
  C7. A run whose saves succeed leaves \<open>favicons/apple-touch-icon.png\<close> holding the
  source resized with the Lanczos filter to 180 by 180, a raster of exactly that size.
\<close>

theorem apple_touch_icon_180:
  assumes "can_makedirs F w OUTPUT_DIR"
      and "load_source L w = Inr img"
      and "list_all (can_save F w) output_paths"
      and "w' = world_of (generate_favicons L F w)"
  shows "path_join OUTPUT_DIR ''apple-touch-icon.png'' = ''favicons/apple-touch-icon.png''
         \<and> files w' ''favicons/apple-touch-icon.png''
             = Some (PngFile (resize L img (180, 180) LANCZOS))
         \<and> im_size (resize L img (180, 180) LANCZOS) = (180, 180)"
proof -
  have "saves_done F w = 10"
    using assms(3) by (simp add: saves_done_all)
  then have "files w' (output_paths ! 9) = Some (snd (artifacts L img ! 9))"
    using run_files_written [OF assms(1,2), of 9] assms(4) by simp
  then show ?thesis
    by (simp add: output_paths_def artifacts_def path_join_def OUTPUT_DIR_def resize_def)
qed

theorem apple_touch_icon_180_witness:
  "can_makedirs no_faults example_world OUTPUT_DIR
   \<and> load_source example_pil example_world = Inr example_img
   \<and> list_all (can_save no_faults example_world) output_paths
   \<and> files (world_of (generate_favicons example_pil no_faults example_world))
        ''favicons/apple-touch-icon.png''
      = Some (PngFile \<lparr>im_size = (180, 180), mode = ''RGBA'', data = [7]\<rparr>)"
  using apple_touch_icon_180
    [where F = no_faults and w = example_world and L = example_pil and img = example_img
       and w' = "world_of (generate_favicons example_pil no_faults example_world)"]
  by (simp add: example_makedirs example_load example_saves example_resize)

text \<open>
  C8. When some save of a run cannot succeed, the run ends with the write error at the
  first such save, say the \<open>k\<close>-th of the ten (counting from 0): exactly the first \<open>k\<close>
  artifacts have been written, each once and still in place with its content, \<open>k\<close>
  progress lines and no summary have been printed, and every file that comes later in
  program order is as it was before the run. The path of the failed save itself holds
  whatever the failed write left there.
\<close>

theorem failed_save_stops_run:
  assumes "can_makedirs F w OUTPUT_DIR"
      and "load_source L w = Inr img"
      and "\<not> list_all (can_save F w) output_paths"
      and "k = saves_done F w"
      and "w' = world_of (generate_favicons L F w)"
  shows "generate_favicons L F w = Raised WriteError w'
         \<and> k < 10
         \<and> \<not> can_save F w (output_paths ! k)
         \<and> list_all (can_save F w) (take k output_paths)
         \<and> written (new_events w w') = take k (artifacts L img)
         \<and> printed (new_events w w') = take k progress
         \<and> map (files w') (take k output_paths) = map (\<lambda>a. Some (snd a)) (take k (artifacts L img))
         \<and> map (files w') (drop (Suc k) output_paths) = map (files w) (drop (Suc k) output_paths)"
proof -
  have lt: "k < 10" and bad: "\<not> can_save F w (output_paths ! k)"
    unfolding assms(4) using assms(3) by (rule saves_done_bad)+
  have raised: "generate_favicons L F w = Raised WriteError w'"
    using run_outcome [OF assms(1,2)] lt assms(4,5) by simp
  have good: "list_all (can_save F w) (take k output_paths)"
    unfolding assms(4) saves_done_def
    by (metis takeWhile_eq_take list_all_iff set_takeWhileD)
  have wr: "written (new_events w w') = take k (artifacts L img)"
    unfolding assms(4,5) by (rule run_written [OF assms(1,2)])
  have pr: "printed (new_events w w') = take k progress"
    using run_printed [OF assms(1,2)] lt assms(4,5) by simp
  have kept: "map (files w') (take k output_paths)
              = map (\<lambda>a. Some (snd a)) (take k (artifacts L img))"
    unfolding assms(4,5) by (rule run_files_prefix [OF assms(1,2) order_refl])
  have later: "map (files w') (drop (Suc k) output_paths) = map (files w) (drop (Suc k) output_paths)"
    unfolding assms(4,5) by (rule run_files_later [OF assms(1,2)])
  show ?thesis
    using raised lt bad good wr pr kept later by (intro conjI)
qed

theorem failed_save_stops_run_witness:
  "can_makedirs disk_full example_world OUTPUT_DIR
   \<and> load_source example_pil example_world = Inr example_img
   \<and> \<not> list_all (can_save disk_full example_world) output_paths
   \<and> saves_done disk_full example_world = 2
   \<and> generate_favicons example_pil disk_full example_world
       = Raised WriteError (world_of (generate_favicons example_pil disk_full example_world))
   \<and> written (new_events example_world
        (world_of (generate_favicons example_pil disk_full example_world)))
       = [(''favicons/favicon-16x16.png'', PngFile (resize example_pil example_img (16, 16) LANCZOS)),
          (''favicons/favicon-32x32.png'', PngFile (resize example_pil example_img (32, 32) LANCZOS))]
   \<and> printed (new_events example_world
        (world_of (generate_favicons example_pil disk_full example_world)))
       = [''Created favicon-16x16.png'', ''Created favicon-32x32.png'']"
proof -
  note run = failed_save_stops_run
    [where F = disk_full and w = example_world and L = example_pil and img = example_img
       and k = 2 and w' = "world_of (generate_favicons example_pil disk_full example_world)",
     OF example_makedirs_full example_load example_not_all_saves example_disk_full [symmetric] refl]
  have wr: "written (new_events example_world
        (world_of (generate_favicons example_pil disk_full example_world)))
       = [(''favicons/favicon-16x16.png'', PngFile (resize example_pil example_img (16, 16) LANCZOS)),
          (''favicons/favicon-32x32.png'', PngFile (resize example_pil example_img (32, 32) LANCZOS))]"
    using run by (simp add: artifacts_def)
  have pr: "printed (new_events example_world
        (world_of (generate_favicons example_pil disk_full example_world)))
       = [''Created favicon-16x16.png'', ''Created favicon-32x32.png'']"
    using run by (simp add: progress_def)
  show ?thesis
    using example_makedirs_full example_load example_not_all_saves example_disk_full
      run [THEN conjunct1] wr pr
    by (intro conjI)
qed

text \<open>
  C9. A run whose saves all succeed ends normally, and what it appended to the trace is,
  in order: for each of the eight sizes the write of the PNG followed by its line
  \<open>Created favicon-SxS.png\<close>; the write of the icon container followed by
  \<open>Created favicon.ico\<close>; the write of the touch icon followed by
  \<open>Created apple-touch-icon.png\<close>; and last the summary, which \<open>print\<close> is given with
  a leading newline and which names \<open>favicons/\<close>.
\<close>

theorem console_output_in_order:
  assumes "can_makedirs F w OUTPUT_DIR"
      and "load_source L w = Inr img"
      and "list_all (can_save F w) output_paths"
      and "w' = world_of (generate_favicons L F w)"
  shows "generate_favicons L F w = Done () w'
         \<and> new_events w w' =
             [Wrote ''favicons/favicon-16x16.png'' (PngFile (resize L img (16, 16) LANCZOS)),
              Printed ''Created favicon-16x16.png'',
              Wrote ''favicons/favicon-32x32.png'' (PngFile (resize L img (32, 32) LANCZOS)),
              Printed ''Created favicon-32x32.png'',
              Wrote ''favicons/favicon-48x48.png'' (PngFile (resize L img (48, 48) LANCZOS)),
              Printed ''Created favicon-48x48.png'',
              Wrote ''favicons/favicon-64x64.png'' (PngFile (resize L img (64, 64) LANCZOS)),
              Printed ''Created favicon-64x64.png'',
              Wrote ''favicons/favicon-128x128.png'' (PngFile (resize L img (128, 128) LANCZOS)),
              Printed ''Created favicon-128x128.png'',
              Wrote ''favicons/favicon-180x180.png'' (PngFile (resize L img (180, 180) LANCZOS)),
              Printed ''Created favicon-180x180.png'',
              Wrote ''favicons/favicon-192x192.png'' (PngFile (resize L img (192, 192) LANCZOS)),
              Printed ''Created favicon-192x192.png'',
              Wrote ''favicons/favicon-512x512.png'' (PngFile (resize L img (512, 512) LANCZOS)),
              Printed ''Created favicon-512x512.png'',
              Wrote ''favicons/favicon.ico'' (IcoFile [resize L img (16, 16) LANCZOS]),
              Printed ''Created favicon.ico'',
              Wrote ''favicons/apple-touch-icon.png'' (PngFile (resize L img (180, 180) LANCZOS)),
              Printed ''Created apple-touch-icon.png'',
              Printed (CHR 0x0A # ''All favicons saved to '' @ [CHR 0x27] @ ''favicons/'' @ [CHR 0x27])]
         \<and> printed (new_events w w') =
             [''Created favicon-16x16.png'',
              ''Created favicon-32x32.png'',
              ''Created favicon-48x48.png'',
              ''Created favicon-64x64.png'',
              ''Created favicon-128x128.png'',
              ''Created favicon-180x180.png'',
              ''Created favicon-192x192.png'',
              ''Created favicon-512x512.png'',
              ''Created favicon.ico'',
              ''Created apple-touch-icon.png'',
              CHR 0x0A # ''All favicons saved to '' @ [CHR 0x27] @ ''favicons/'' @ [CHR 0x27]]"
proof -
  have k: "saves_done F w = 10"
    using assms(3) by (simp add: saves_done_all)
  have ok: "generate_favicons L F w = Done () w'"
    using run_outcome [OF assms(1,2)] k assms(4) by simp
  have ev: "new_events w w' =
             [Wrote ''favicons/favicon-16x16.png'' (PngFile (resize L img (16, 16) LANCZOS)),
              Printed ''Created favicon-16x16.png'',
              Wrote ''favicons/favicon-32x32.png'' (PngFile (resize L img (32, 32) LANCZOS)),
              Printed ''Created favicon-32x32.png'',
              Wrote ''favicons/favicon-48x48.png'' (PngFile (resize L img (48, 48) LANCZOS)),
              Printed ''Created favicon-48x48.png'',
              Wrote ''favicons/favicon-64x64.png'' (PngFile (resize L img (64, 64) LANCZOS)),
              Printed ''Created favicon-64x64.png'',
              Wrote ''favicons/favicon-128x128.png'' (PngFile (resize L img (128, 128) LANCZOS)),
              Printed ''Created favicon-128x128.png'',
              Wrote ''favicons/favicon-180x180.png'' (PngFile (resize L img (180, 180) LANCZOS)),
              Printed ''Created favicon-180x180.png'',
              Wrote ''favicons/favicon-192x192.png'' (PngFile (resize L img (192, 192) LANCZOS)),
              Printed ''Created favicon-192x192.png'',
              Wrote ''favicons/favicon-512x512.png'' (PngFile (resize L img (512, 512) LANCZOS)),
              Printed ''Created favicon-512x512.png'',
              Wrote ''favicons/favicon.ico'' (IcoFile [resize L img (16, 16) LANCZOS]),
              Printed ''Created favicon.ico'',
              Wrote ''favicons/apple-touch-icon.png'' (PngFile (resize L img (180, 180) LANCZOS)),
              Printed ''Created apple-touch-icon.png'',
              Printed (CHR 0x0A # ''All favicons saved to '' @ [CHR 0x27] @ ''favicons/'' @ [CHR 0x27])]"
    using run_events [OF assms(1,2)] k assms(4)
    by (simp add: artifacts_def progress_def summary_def)
  have pr: "printed (new_events w w') =
             [''Created favicon-16x16.png'',
              ''Created favicon-32x32.png'',
              ''Created favicon-48x48.png'',
              ''Created favicon-64x64.png'',
              ''Created favicon-128x128.png'',
              ''Created favicon-180x180.png'',
              ''Created favicon-192x192.png'',
              ''Created favicon-512x512.png'',
              ''Created favicon.ico'',
              ''Created apple-touch-icon.png'',
              CHR 0x0A # ''All favicons saved to '' @ [CHR 0x27] @ ''favicons/'' @ [CHR 0x27]]"
    unfolding ev by simp
  show ?thesis
    using ok ev pr by (intro conjI)
qed

theorem console_output_in_order_witness:
  "can_makedirs no_faults example_world OUTPUT_DIR
   \<and> load_source example_pil example_world = Inr example_img
   \<and> list_all (can_save no_faults example_world) output_paths
   \<and> printed (new_events example_world
        (world_of (generate_favicons example_pil no_faults example_world))) =
             [''Created favicon-16x16.png'',
              ''Created favicon-32x32.png'',
              ''Created favicon-48x48.png'',
              ''Created favicon-64x64.png'',
              ''Created favicon-128x128.png'',
              ''Created favicon-180x180.png'',
              ''Created favicon-192x192.png'',
              ''Created favicon-512x512.png'',
              ''Created favicon.ico'',
              ''Created apple-touch-icon.png'',
              CHR 0x0A # ''All favicons saved to '' @ [CHR 0x27] @ ''favicons/'' @ [CHR 0x27]]"
  using console_output_in_order
    [where F = no_faults and w = example_world and L = example_pil and img = example_img
       and w' = "world_of (generate_favicons example_pil no_faults example_world)"]
  by (simp add: example_makedirs example_load example_saves)

text \<open>
  C10. The directory is made before the source is opened: a run that finds no decodable
  \<open>icon.png\<close> ends with the decode error in a world where \<open>favicons\<close> now exists, with
  the files as they were. Making the directory again is then a no-op (exist\_ok).
\<close>

theorem directory_made_before_load:
  assumes "OUTPUT_DIR \<notin> dirs w"
      and "can_makedirs F w OUTPUT_DIR"
      and "(case files w SOURCE of None \<Rightarrow> None | Some c \<Rightarrow> decode L c) = None"
      and "w' = world_of (generate_favicons L F w)"
  shows "generate_favicons L F w = Raised DecodeError w'
         \<and> dirs w' = insert OUTPUT_DIR (dirs w)
         \<and> files w' = files w
         \<and> written (new_events w w') = []
         \<and> makedirs F OUTPUT_DIR True w' = Done () w'"
  using assms by (simp add: run_no_source new_events_def makedirs_def)

theorem directory_made_before_load_witness:
  "OUTPUT_DIR \<notin> dirs bare_world
   \<and> can_makedirs no_faults bare_world OUTPUT_DIR
   \<and> (case files bare_world SOURCE of None \<Rightarrow> None | Some c \<Rightarrow> decode example_pil c) = None
   \<and> generate_favicons example_pil no_faults bare_world
       = Raised DecodeError (world_of (generate_favicons example_pil no_faults bare_world))
   \<and> dirs (world_of (generate_favicons example_pil no_faults bare_world)) = {''favicons''}
   \<and> files (world_of (generate_favicons example_pil no_faults bare_world)) = Map.empty"
  using directory_made_before_load
    [where w = bare_world and L = example_pil and F = no_faults
       and w' = "world_of (generate_favicons example_pil no_faults bare_world)"]
  by (simp add: bare_world_def can_makedirs_def no_faults_def OUTPUT_DIR_def)

end
